theory Spec2Isabelle
  imports Main
begin

section \<open>Values, output and exceptions\<close>

text \<open>
  The command line interface of \<^verbatim>\<open>info_tech_cli/cli.py\<close> is a Click command group
  \<^verbatim>\<open>cli\<close> with four sub-commands (\<^verbatim>\<open>create\<close>, \<^verbatim>\<open>delete\<close>, \<^verbatim>\<open>validate\<close>,
  \<^verbatim>\<open>version\<close>) and the entry point \<^verbatim>\<open>main\<close>. A run of the program is modelled as
  the list of the effects it performs, in order, together with the way it ends.
\<close>

datatype stream = Stdout | Stderr

text \<open>The Python values that reach the callbacks as parameters: \<^verbatim>\<open>str\<close>, \<^verbatim>\<open>bool\<close>, \<^verbatim>\<open>None\<close>.\<close>

datatype pvalue = Str string | Bool bool | NoneV

text \<open>
  The context object is a dictionary; \<^verbatim>\<open>obj\<close> is \<open>None\<close> while Python's
  \<^verbatim>\<open>ctx.obj\<close> is \<^verbatim>\<open>None\<close>.
\<close>

type_synonym dict = "(string \<times> pvalue) list"

record ctx =
  obj :: "dict option"

text \<open>A usage error of Click, with the data it reports.\<close>

datatype usage_error =
    BadParameter string string "string list"
  | MissingParameter string
  | NoSuchOption string
  | BadOptionUsage string
  | UnexpectedExtraArguments "string list"
  | NoSuchCommand string
  | UsageError string

text \<open>
  An effect of a run. \<open>Echo s m\<close> is a call \<^verbatim>\<open>click.echo(m)\<close> on stream \<open>s\<close>
  (\<^verbatim>\<open>err=True\<close> selects \<open>Stderr\<close>); \<open>Show_usage_error e\<close> is Click printing a usage
  error on the error stream; \<open>Show_help\<close> is Click printing the help page of a command
  on standard output; \<open>Create_module\<close> and \<open>Delete_module\<close> are the calls of the
  two handlers with their arguments; \<open>Handler_effect x\<close> is an effect \<open>x\<close> that a handler
  performs itself. The handlers live in \<^verbatim>\<open>commands/create.py\<close> and
  \<^verbatim>\<open>commands/delete.py\<close>; each of their effects is named by a string.
\<close>

datatype event =
    Echo stream string
  | Show_usage_error usage_error
  | Show_help
  | Create_module ctx pvalue pvalue pvalue pvalue pvalue pvalue
  | Delete_module ctx pvalue pvalue pvalue
  | Handler_effect string

text \<open>
  What can be raised. \<open>KeyboardInterrupt\<close> and \<open>SystemExit\<close> are not instances of
  Python's \<^verbatim>\<open>Exception\<close>. \<open>Exception cls msg\<close> is an instance \<^verbatim>\<open>e\<close> of
  \<^verbatim>\<open>Exception\<close> with \<^verbatim>\<open>str(e) = msg\<close>; its class \<open>cls\<close> says how Click's runner
  treats it: \<open>ClickException n\<close> is a \<^verbatim>\<open>click.ClickException\<close> with exit code \<open>n\<close>,
  \<open>UsageErrorRaised\<close> a \<^verbatim>\<open>click.UsageError\<close>, \<open>Abort\<close> and \<open>Exit n\<close> are
  \<^verbatim>\<open>click.exceptions.Abort\<close> and \<^verbatim>\<open>click.exceptions.Exit\<close> (which
  \<^verbatim>\<open>ctx.exit(n)\<close> raises), \<open>BrokenPipe\<close> is an \<^verbatim>\<open>OSError\<close> whose \<^verbatim>\<open>errno\<close> is
  \<^verbatim>\<open>EPIPE\<close>, and \<open>Other\<close> is every other class.
\<close>

datatype exc_class =
  ClickException int | UsageErrorRaised | Abort | Exit int | EOFError | BrokenPipe | Other

datatype exn = KeyboardInterrupt | SystemExit int | Exception exc_class string

datatype outcome = Returns | Raises exn

type_synonym run = "event list \<times> outcome"

text \<open>The two handlers, parameters of the model: what they do and how they end.\<close>

record handlers =
  create_module :: "ctx \<Rightarrow> pvalue \<Rightarrow> pvalue \<Rightarrow> pvalue \<Rightarrow> pvalue \<Rightarrow> pvalue \<Rightarrow> pvalue
    \<Rightarrow> string list \<times> outcome"
  delete_module :: "ctx \<Rightarrow> pvalue \<Rightarrow> pvalue \<Rightarrow> pvalue \<Rightarrow> string list \<times> outcome"

section \<open>String constants of the source\<close>

text \<open>The three symbols of the messages, as their UTF-8 bytes.\<close>

definition magnifier :: string where
  "magnifier = [CHR 0xF0, CHR 0x9F, CHR 0x94, CHR 0x8D]"

definition warning_sign :: string where
  "warning_sign = [CHR 0xE2, CHR 0x9A, CHR 0xA0, CHR 0xEF, CHR 0xB8, CHR 0x8F]"

definition cross_mark :: string where
  "cross_mark = [CHR 0xE2, CHR 0x9D, CHR 0x8C]"

text \<open>
  \<^verbatim>\<open>click.style(text, fg="yellow")\<close>: the text between the colour code and the reset
  code.
\<close>

definition style_yellow :: "string \<Rightarrow> string" where
  "style_yellow text = CHR 0x1B # ''[33m'' @ text @ CHR 0x1B # ''[0m''"

text \<open>How an f-string renders a value.\<close>

fun format :: "pvalue \<Rightarrow> string" where
  "format (Str s) = s"
| "format (Bool b) = (if b then ''True'' else ''False'')"
| "format NoneV = ''None''"

definition cancelled_notice :: string where
  "cancelled_notice = CHR 0x0A # warning_sign @ ''  Operation cancelled by user''"

definition error_message :: "string \<Rightarrow> string" where
  "error_message msg = cross_mark @ '' Error: '' @ msg"

section \<open>The group callback \<^verbatim>\<open>cli\<close>\<close>

text \<open>
  The environment of the process, as the callback finds it: the module has called
  \<^verbatim>\<open>load_dotenv()\<close> when it was imported.
\<close>

type_synonym environ = "string \<rightharpoonup> string"

definition getenv :: "environ \<Rightarrow> string \<Rightarrow> string option" where
  "getenv env k = env k"

text \<open>Python's truth value of what \<^verbatim>\<open>os.getenv\<close> returns: \<^verbatim>\<open>None\<close> and \<^verbatim>\<open>""\<close> are false.\<close>

fun truthy :: "string option \<Rightarrow> bool" where
  "truthy None = False"
| "truthy (Some s) = (s \<noteq> [])"

text \<open>\<^verbatim>\<open>ctx.ensure_object(dict)\<close>: a missing object is replaced by a new empty dictionary.\<close>

definition ensure_object :: "ctx \<Rightarrow> ctx" where
  "ensure_object ctx = (case obj ctx of None \<Rightarrow> ctx\<lparr>obj := Some []\<rparr> | Some d \<Rightarrow> ctx)"

definition warning :: "event list" where
  "warning =
     [Echo Stdout (style_yellow ''Warning: GITHUB_TOKEN not found in environment''),
      Echo Stdout ''Some features may not work properly.'',
      Echo Stdout ''Please set GITHUB_TOKEN in your .env file.'']"

definition cli :: "environ \<Rightarrow> ctx \<Rightarrow> ctx \<times> event list" where
  "cli env ctx =
     (let ctx' = ensure_object ctx;
          github_token = getenv env ''GITHUB_TOKEN''
      in (ctx', if \<not> truthy github_token then warning else []))"

section \<open>The sub-commands\<close>

definition create ::
  "handlers \<Rightarrow> ctx \<Rightarrow> pvalue \<Rightarrow> pvalue \<Rightarrow> pvalue \<Rightarrow> pvalue \<Rightarrow> pvalue \<Rightarrow> pvalue \<Rightarrow> run"
where
  "create h ctx module_name template category difficulty language interactive =
     (let (effects, out) =
            create_module h ctx module_name template category difficulty language interactive
      in (Create_module ctx module_name template category difficulty language interactive
            # map Handler_effect effects, out))"

definition delete :: "handlers \<Rightarrow> ctx \<Rightarrow> pvalue \<Rightarrow> pvalue \<Rightarrow> pvalue \<Rightarrow> run" where
  "delete h ctx module_name force remove_repo =
     (let (effects, out) = delete_module h ctx module_name force remove_repo
      in (Delete_module ctx module_name force remove_repo # map Handler_effect effects, out))"

definition validate :: "pvalue \<Rightarrow> run" where
  "validate path =
     ([Echo Stdout (magnifier @ '' Validating module at: '' @ format path),
       Echo Stdout (warning_sign @ ''  Validation feature coming soon...'')],
      Returns)"

definition version :: "run" where
  "version =
     ([Echo Stdout ''info_tech_cli version 0.1.0'',
       Echo Stdout ''InfoTech.io Educational Platform CLI'',
       Echo Stdout ''Author: A1eksMa <a1ex_ma@mail.ru>''],
      Returns)"

section \<open>Click: declared parameters\<close>

text \<open>
  The decorators of a command declare its parameters. A parameter has the name under
  which its value reaches the callback, a kind (a positional argument, or an option with
  its spellings), a type, a default and the flag \<open>p_required\<close>. An argument without a
  default is required; an option is not; a flag (\<^verbatim>\<open>is_flag=True\<close>) is a Boolean option
  whose default is \<^verbatim>\<open>False\<close>.
\<close>

datatype ptype = STRING | Choice "string list" | BOOL_FLAG

datatype pkind = Argument | Option "string list"

record param =
  p_name :: string
  p_kind :: pkind
  p_type :: ptype
  p_default :: pvalue
  p_required :: bool

definition click_argument :: "string \<Rightarrow> pvalue \<Rightarrow> param" where
  "click_argument name dflt =
     \<lparr>p_name = name, p_kind = Argument, p_type = STRING, p_default = dflt,
      p_required = (dflt = NoneV)\<rparr>"

definition click_option :: "string list \<Rightarrow> string \<Rightarrow> ptype \<Rightarrow> pvalue \<Rightarrow> param" where
  "click_option decls name type dflt =
     \<lparr>p_name = name, p_kind = Option decls, p_type = type, p_default = dflt,
      p_required = False\<rparr>"

definition click_flag :: "string list \<Rightarrow> string \<Rightarrow> param" where
  "click_flag decls name =
     \<lparr>p_name = name, p_kind = Option decls, p_type = BOOL_FLAG, p_default = Bool False,
      p_required = False\<rparr>"

definition create_params :: "param list" where
  "create_params =
     [click_argument ''module_name'' NoneV,
      click_option [''--template'', ''-t''] ''template'' STRING (Str ''module-basic''),
      click_option [''--category'', ''-c''] ''category'' STRING (Str ''programming''),
      click_option [''--difficulty'', ''-d''] ''difficulty''
        (Choice [''beginner'', ''intermediate'', ''advanced'']) (Str ''beginner''),
      click_option [''--language'', ''-l''] ''language'' (Choice [''ru'', ''en'']) (Str ''ru''),
      click_flag [''--interactive'', ''-i''] ''interactive'']"

definition delete_params :: "param list" where
  "delete_params =
     [click_argument ''module_name'' NoneV,
      click_flag [''--force'', ''-f''] ''force'',
      click_flag [''--remove-repo''] ''remove_repo'']"

definition validate_params :: "param list" where
  "validate_params = [click_argument ''path'' (Str ''.'')]"

definition version_params :: "param list" where
  "version_params = []"

section \<open>Click: the command line of a sub-command\<close>

text \<open>
  The command line of a sub-command, after Click has split it into words: a positional
  word; an option name with a value (\<^verbatim>\<open>--difficulty x\<close>, \<^verbatim>\<open>-d x\<close>,
  \<^verbatim>\<open>--difficulty=x\<close>); an option name without a value (a flag, or a last word such as
  \<^verbatim>\<open>--difficulty\<close>); or the \<^verbatim>\<open>--help\<close> option that Click adds to every command.
  Option names are the names of the parameters.
\<close>

datatype token = Pos string | Opt string string | Flg string | Help

definition value_options :: "param list \<Rightarrow> string list" where
  "value_options ps =
     map p_name (filter (\<lambda>p. p_kind p \<noteq> Argument \<and> p_type p \<noteq> BOOL_FLAG) ps)"

definition flag_options :: "param list \<Rightarrow> string list" where
  "flag_options ps =
     map p_name (filter (\<lambda>p. p_kind p \<noteq> Argument \<and> p_type p = BOOL_FLAG) ps)"

definition arguments :: "param list \<Rightarrow> param list" where
  "arguments ps = filter (\<lambda>p. p_kind p = Argument) ps"

text \<open>
  The error of the first word that uses an option wrongly, if there is one: a name that
  is no option of the command, a flag that is given a value, or an option that takes a
  value and is given none.
\<close>

fun option_error :: "param list \<Rightarrow> token list \<Rightarrow> usage_error option" where
  "option_error ps [] = None"
| "option_error ps (Pos a # ts) = option_error ps ts"
| "option_error ps (Help # ts) = option_error ps ts"
| "option_error ps (Opt n v # ts) =
     (if n \<in> set (value_options ps) then option_error ps ts
      else if n \<in> set (flag_options ps) then Some (BadOptionUsage n)
      else Some (NoSuchOption n))"
| "option_error ps (Flg n # ts) =
     (if n \<in> set (flag_options ps) then option_error ps ts
      else if n \<in> set (value_options ps) then Some (BadOptionUsage n)
      else Some (NoSuchOption n))"

text \<open>The value an option is given: of several occurrences the last one counts.\<close>

fun given :: "token list \<Rightarrow> string \<Rightarrow> pvalue option" where
  "given [] n = None"
| "given (t # ts) n =
     (case given ts n of
        Some v \<Rightarrow> Some v
      | None \<Rightarrow>
          (case t of
             Pos a \<Rightarrow> None
           | Opt m v \<Rightarrow> if m = n then Some (Str v) else None
           | Flg m \<Rightarrow> if m = n then Some (Bool True) else None
           | Help \<Rightarrow> None))"

fun option_order :: "token list \<Rightarrow> string list" where
  "option_order [] = []"
| "option_order (Pos a # ts) = option_order ts"
| "option_order (Opt n v # ts) = n # option_order ts"
| "option_order (Flg n # ts) = n # option_order ts"
| "option_order (Help # ts) = option_order ts"

fun positionals :: "token list \<Rightarrow> string list" where
  "positionals [] = []"
| "positionals (Pos a # ts) = a # positionals ts"
| "positionals (Opt n v # ts) = positionals ts"
| "positionals (Flg n # ts) = positionals ts"
| "positionals (Help # ts) = positionals ts"

text \<open>
  What the option parser hands over: the values by parameter name, the positional words
  not yet bound, and the parameters in the order in which they were met.
\<close>

record parsed =
  opts :: "string \<Rightarrow> pvalue option"
  largs :: "string list"
  order :: "string list"

text \<open>
  After the options, each declared argument takes the next positional word, if one is
  left, and joins the order.
\<close>

fun bind_arguments :: "param list \<Rightarrow> parsed \<Rightarrow> parsed" where
  "bind_arguments [] st = st"
| "bind_arguments (a # as) st =
     (case largs st of
        [] \<Rightarrow> bind_arguments as (st\<lparr>order := order st @ [p_name a]\<rparr>)
      | x # xs \<Rightarrow>
          bind_arguments as
            (st\<lparr>opts := (opts st)(p_name a \<mapsto> Str x), largs := xs,
               order := order st @ [p_name a]\<rparr>))"

definition parser :: "param list \<Rightarrow> token list \<Rightarrow> usage_error + parsed" where
  "parser ps ts =
     (case option_error ps ts of
        Some e \<Rightarrow> Inl e
      | None \<Rightarrow>
          Inr (bind_arguments (arguments ps)
                 \<lparr>opts = given ts, largs = positionals ts, order = option_order ts\<rparr>))"

section \<open>Click: the values of the parameters\<close>

text \<open>A parameter takes the value from the command line, or else its default.\<close>

definition consume_value :: "parsed \<Rightarrow> param \<Rightarrow> pvalue" where
  "consume_value st p = (case opts st (p_name p) of Some v \<Rightarrow> v | None \<Rightarrow> p_default p)"

text \<open>
  The type of the parameter converts the value; \<^verbatim>\<open>click.Choice\<close> accepts the listed
  strings only and reports the list otherwise.
\<close>

fun convert :: "ptype \<Rightarrow> string \<Rightarrow> pvalue \<Rightarrow> usage_error + pvalue" where
  "convert (Choice cs) n (Str s) = (if s \<in> set cs then Inr (Str s) else Inl (BadParameter n s cs))"
| "convert t n v = Inr v"

definition process_value :: "parsed \<Rightarrow> param \<Rightarrow> usage_error + pvalue" where
  "process_value st p =
     (case consume_value st p of
        NoneV \<Rightarrow> if p_required p then Inl (MissingParameter (p_name p)) else Inr NoneV
      | v \<Rightarrow> convert (p_type p) (p_name p) v)"

text \<open>
  Parameters are processed in the order in which the command line names them, then the
  others in the order of their declaration.
\<close>

definition first_occurrences :: "string list \<Rightarrow> string list" where
  "first_occurrences ns = rev (remdups (rev ns))"

definition iter_params_for_processing :: "string list \<Rightarrow> param list \<Rightarrow> param list" where
  "iter_params_for_processing invocation_order declaration_order =
     concat (map (\<lambda>n. filter (\<lambda>p. p_name p = n) declaration_order)
               (first_occurrences invocation_order))
     @ filter (\<lambda>p. p_name p \<notin> set invocation_order) declaration_order"

fun process_params ::
  "parsed \<Rightarrow> param list \<Rightarrow> (string \<Rightarrow> pvalue) \<Rightarrow> usage_error + (string \<Rightarrow> pvalue)"
where
  "process_params st [] kw = Inr kw"
| "process_params st (p # ps) kw =
     (case process_value st p of
        Inl e \<Rightarrow> Inl e
      | Inr v \<Rightarrow> process_params st ps (kw(p_name p := v)))"

text \<open>
  The words are parsed first. Then \<^verbatim>\<open>--help\<close>, which is eager, is served before
  any other parameter is processed; it ends the command. Otherwise the parameters get
  their values, and words that are left over are an error.
\<close>

datatype parse_result = Usage usage_error | Help_requested | Parsed "string \<Rightarrow> pvalue"

definition parse_args :: "param list \<Rightarrow> token list \<Rightarrow> parse_result" where
  "parse_args ps ts =
     (case parser ps ts of
        Inl e \<Rightarrow> Usage e
      | Inr st \<Rightarrow>
          if Help \<in> set ts then Help_requested
          else
            (case process_params st (iter_params_for_processing (order st) ps) (\<lambda>n. NoneV) of
               Inl e \<Rightarrow> Usage e
             | Inr kw \<Rightarrow>
                 if largs st \<noteq> [] then Usage (UnexpectedExtraArguments (largs st))
                 else Parsed kw))"

section \<open>Click: the group and its runner\<close>

datatype command = Create | Delete | Validate | Version

definition commands :: "(string \<times> command) list" where
  "commands =
     [(''create'', Create), (''delete'', Delete), (''validate'', Validate),
      (''version'', Version)]"

definition resolve_command :: "string \<Rightarrow> command option" where
  "resolve_command name = map_of commands name"

fun params :: "command \<Rightarrow> param list" where
  "params Create = create_params"
| "params Delete = delete_params"
| "params Validate = validate_params"
| "params Version = version_params"

text \<open>
  The callback of a command is called with the values of its parameters by name;
  \<^verbatim>\<open>pass_context\<close> adds the context of the command.
\<close>

fun invoke :: "handlers \<Rightarrow> command \<Rightarrow> ctx \<Rightarrow> (string \<Rightarrow> pvalue) \<Rightarrow> run" where
  "invoke h Create c kw =
     create h c (kw ''module_name'') (kw ''template'') (kw ''category'') (kw ''difficulty'')
       (kw ''language'') (kw ''interactive'')"
| "invoke h Delete c kw = delete h c (kw ''module_name'') (kw ''force'') (kw ''remove_repo'')"
| "invoke h Validate c kw = validate (kw ''path'')"
| "invoke h Version c kw = version"

text \<open>The context of a sub-command takes the object of its parent.\<close>

definition make_context :: "ctx \<Rightarrow> ctx" where
  "make_context parent = \<lparr>obj = obj parent\<rparr>"

definition command_main ::
  "handlers \<Rightarrow> command \<Rightarrow> ctx \<Rightarrow> token list \<Rightarrow> event list \<times> (usage_error + outcome)"
where
  "command_main h cmd sub_ctx ts =
     (case parse_args (params cmd) ts of
        Usage e \<Rightarrow> ([], Inl e)
      | Help_requested \<Rightarrow> ([Show_help], Inr (Raises (Exception (Exit 0) [])))
      | Parsed kw \<Rightarrow> (let (evs, out) = invoke h cmd sub_ctx kw in (evs, Inr out)))"

text \<open>
  The group resolves the name of the sub-command, runs its own callback \<^verbatim>\<open>cli\<close>, and
  then lets the sub-command parse its words and run. A command line is the name of a
  sub-command and the words after it; the options of the group itself
  (\<^verbatim>\<open>--version\<close>, \<^verbatim>\<open>--help\<close> before the name of the sub-command) are not part
  of the model.
\<close>

definition group_invoke ::
  "handlers \<Rightarrow> environ \<Rightarrow> ctx \<Rightarrow> string \<Rightarrow> token list
    \<Rightarrow> event list \<times> (usage_error + outcome)"
where
  "group_invoke h env c name ts =
     (case resolve_command name of
        None \<Rightarrow> ([], Inl (NoSuchCommand name))
      | Some cmd \<Rightarrow>
          (let (c', evs) = cli env c;
               (evs', r) = command_main h cmd (make_context c') ts
           in (evs @ evs', r)))"

text \<open>
  Click's runner in its default, stand-alone mode, which \<^verbatim>\<open>cli(obj={})\<close> uses. A
  usage error is shown and the process exits with status 2; a callback that returns leads
  to exit status 0. A \<^verbatim>\<open>KeyboardInterrupt\<close> or an \<^verbatim>\<open>EOFError\<close> raised inside
  prints an empty line on the error stream and becomes Click's \<^verbatim>\<open>Abort\<close>; an
  \<^verbatim>\<open>Abort\<close> prints \<^verbatim>\<open>Aborted!\<close> on the error stream and exits with status 1. A
  \<^verbatim>\<open>ClickException\<close> is shown by Click as \<^verbatim>\<open>Error:\<close> and its message on the
  error stream, and the process exits with the code of the exception; a usage error that
  a callback raises is shown as the other usage errors are. An \<^verbatim>\<open>Exit\<close> leaves with
  its code. A broken pipe leaves with status 1 and no message. Every other exception, and
  \<^verbatim>\<open>SystemExit\<close>, pass to the caller.
\<close>

fun standalone_exception :: "event list \<Rightarrow> exc_class \<Rightarrow> string \<Rightarrow> run" where
  "standalone_exception evs EOFError msg =
     (evs @ [Echo Stderr [], Echo Stderr ''Aborted!''], Raises (SystemExit 1))"
| "standalone_exception evs Abort msg =
     (evs @ [Echo Stderr ''Aborted!''], Raises (SystemExit 1))"
| "standalone_exception evs (ClickException n) msg =
     (evs @ [Echo Stderr (''Error: '' @ msg)], Raises (SystemExit n))"
| "standalone_exception evs UsageErrorRaised msg =
     (evs @ [Show_usage_error (UsageError msg)], Raises (SystemExit 2))"
| "standalone_exception evs (Exit n) msg = (evs, Raises (SystemExit n))"
| "standalone_exception evs BrokenPipe msg = (evs, Raises (SystemExit 1))"
| "standalone_exception evs Other msg = (evs, Raises (Exception Other msg))"

definition standalone :: "event list \<times> (usage_error + outcome) \<Rightarrow> run" where
  "standalone r =
     (case r of
        (evs, Inl e) \<Rightarrow> (evs @ [Show_usage_error e], Raises (SystemExit 2))
      | (evs, Inr Returns) \<Rightarrow> (evs, Raises (SystemExit 0))
      | (evs, Inr (Raises KeyboardInterrupt)) \<Rightarrow>
          (evs @ [Echo Stderr [], Echo Stderr ''Aborted!''], Raises (SystemExit 1))
      | (evs, Inr (Raises (SystemExit n))) \<Rightarrow> (evs, Raises (SystemExit n))
      | (evs, Inr (Raises (Exception cls msg))) \<Rightarrow> standalone_exception evs cls msg)"

text \<open>The call \<^verbatim>\<open>cli(obj=ob)\<close> of the group on a sub-command and its words.\<close>

definition cli_call ::
  "handlers \<Rightarrow> environ \<Rightarrow> dict option \<Rightarrow> string \<Rightarrow> token list \<Rightarrow> run"
where
  "cli_call h env ob name ts = standalone (group_invoke h env \<lparr>obj = ob\<rparr> name ts)"

section \<open>The entry point \<^verbatim>\<open>main\<close>\<close>

text \<open>
  The \<^verbatim>\<open>try\<close> statement of \<^verbatim>\<open>main\<close>, applied to the run of its body
  \<^verbatim>\<open>cli(obj={})\<close>: a \<^verbatim>\<open>KeyboardInterrupt\<close> is answered on standard output, an
  \<^verbatim>\<open>Exception\<close> on the error stream, both with \<^verbatim>\<open>sys.exit(1)\<close>; anything else
  passes.
\<close>

definition main_except :: "run \<Rightarrow> run" where
  "main_except body =
     (case body of
        (evs, Raises KeyboardInterrupt) \<Rightarrow>
          (evs @ [Echo Stdout cancelled_notice], Raises (SystemExit 1))
      | (evs, Raises (Exception cls msg)) \<Rightarrow>
          (evs @ [Echo Stderr (error_message msg)], Raises (SystemExit 1))
      | (evs, out) \<Rightarrow> (evs, out))"

text \<open>
  The exit status of the process: 0 when \<^verbatim>\<open>main\<close> returns, the code of a
  \<^verbatim>\<open>SystemExit\<close>; \<^verbatim>\<open>main\<close> lets nothing else out.
\<close>

fun exit_status :: "outcome \<Rightarrow> int option" where
  "exit_status Returns = Some 0"
| "exit_status (Raises (SystemExit n)) = Some n"
| "exit_status (Raises e) = None"

text \<open>\<^verbatim>\<open>main\<close>: the body is the call \<^verbatim>\<open>cli(obj={})\<close>.\<close>

definition main :: "handlers \<Rightarrow> environ \<Rightarrow> string \<Rightarrow> token list \<Rightarrow> run" where
  "main h env name ts = main_except (cli_call h env (Some []) name ts)"

section \<open>Observations on a run\<close>

text \<open>The calls of the two handlers among the effects of a run, and their contexts.\<close>

fun is_call :: "event \<Rightarrow> bool" where
  "is_call (Create_module c a1 a2 a3 a4 a5 a6) = True"
| "is_call (Delete_module c a1 a2 a3) = True"
| "is_call e = False"

fun call_contexts :: "event list \<Rightarrow> ctx list" where
  "call_contexts [] = []"
| "call_contexts (Create_module c a1 a2 a3 a4 a5 a6 # evs) = c # call_contexts evs"
| "call_contexts (Delete_module c a1 a2 a3 # evs) = c # call_contexts evs"
| "call_contexts (e # evs) = call_contexts evs"

text \<open>The messages that \<^verbatim>\<open>click.echo\<close> writes to one stream.\<close>

fun echoed :: "stream \<Rightarrow> event list \<Rightarrow> string list" where
  "echoed s [] = []"
| "echoed s (Echo s' m # evs) = (if s' = s then m # echoed s evs else echoed s evs)"
| "echoed s (e # evs) = echoed s evs"

text \<open>
  The usage error of an invalid choice for one of the two choice options of
  \<^verbatim>\<open>create\<close>, with the rejected value and the permitted values.
\<close>

abbreviation invalid_choice :: "usage_error \<Rightarrow> bool" where
  "invalid_choice e \<equiv>
     (\<exists>v. v \<notin> set [''beginner'', ''intermediate'', ''advanced''] \<and>
          e = BadParameter ''difficulty'' v [''beginner'', ''intermediate'', ''advanced'']) \<or>
     (\<exists>v. v \<notin> set [''ru'', ''en''] \<and> e = BadParameter ''language'' v [''ru'', ''en''])"

section \<open>Example handlers\<close>

text \<open>
  Concrete handlers for concrete runs: both perform one effect; then both return, or both
  raise the given exception.
\<close>

definition handlers_returning :: handlers where
  "handlers_returning =
     \<lparr>create_module = (\<lambda>c a1 a2 a3 a4 a5 a6. ([''mkdir''], Returns)),
      delete_module = (\<lambda>c a1 a2 a3. ([''rmdir''], Returns))\<rparr>"

definition handlers_raising :: "exn \<Rightarrow> handlers" where
  "handlers_raising e =
     \<lparr>create_module = (\<lambda>c a1 a2 a3 a4 a5 a6. ([''mkdir''], Raises e)),
      delete_module = (\<lambda>c a1 a2 a3. ([''confirm''], Raises e))\<rparr>"

section \<open>Basic facts\<close>

lemmas param_defs = click_argument_def click_option_def click_flag_def create_params_def
  delete_params_def validate_params_def version_params_def

lemmas parse_defs = parse_args_def parser_def arguments_def value_options_def flag_options_def
  iter_params_for_processing_def first_occurrences_def process_value_def consume_value_def

lemmas run_defs = main_def cli_call_def group_invoke_def command_main_def resolve_command_def
  commands_def make_context_def standalone_def main_except_def create_def delete_def
  validate_def version_def cli_def getenv_def ensure_object_def

lemma standalone_exception_append:
  "standalone_exception (a @ b) cls msg =
     (a @ fst (standalone_exception b cls msg), snd (standalone_exception b cls msg))"
  by (cases cls) simp_all

lemma standalone_append:
  "standalone (a @ b, r) = (a @ fst (standalone (b, r)), snd (standalone (b, r)))"
  by (simp add: standalone_def standalone_exception_append [of a b]
      split: sum.split outcome.split exn.split)

lemma main_except_append:
  "main_except (a @ b, out) = (a @ fst (main_except (b, out)), snd (main_except (b, out)))"
  by (simp add: main_except_def split: outcome.split exn.split)

lemma fst_cli: "fst (cli env c) = ensure_object c"
  by (simp add: cli_def Let_def)

lemma snd_cli:
  "snd (cli env c) =
     (if env ''GITHUB_TOKEN'' = None \<or> env ''GITHUB_TOKEN'' = Some [] then warning else [])"
  by (cases "env ''GITHUB_TOKEN''") (simp_all add: cli_def getenv_def Let_def)

lemma group_invoke_resolved:
  assumes "resolve_command name = Some cmd"
  shows "group_invoke h env c name ts =
           (snd (cli env c) @ fst (command_main h cmd (make_context (ensure_object c)) ts),
            snd (command_main h cmd (make_context (ensure_object c)) ts))"
  using assms by (simp add: group_invoke_def split_def fst_cli Let_def)

text \<open>
  A run of \<^verbatim>\<open>main\<close> on a sub-command is what the group callback prints, followed by a
  part that does not depend on the environment.
\<close>

lemma main_resolved:
  assumes "resolve_command name = Some cmd"
  shows "main h env name ts =
           (snd (cli env \<lparr>obj = Some []\<rparr>) @
              fst (main_except (standalone
                (command_main h cmd (make_context (ensure_object \<lparr>obj = Some []\<rparr>)) ts))),
            snd (main_except (standalone
                (command_main h cmd (make_context (ensure_object \<lparr>obj = Some []\<rparr>)) ts))))"
  using assms
  by (simp add: main_def cli_call_def group_invoke_resolved standalone_append
      main_except_append)

lemma echoed_append: "echoed s (a @ b) = echoed s a @ echoed s b"
  by (induction s a rule: echoed.induct) simp_all

lemma filter_is_call_effects: "filter is_call (map Handler_effect effs) = []"
  by (induction effs) simp_all

lemma call_contexts_effects: "call_contexts (map Handler_effect effs) = []"
  by (induction effs) simp_all

lemma call_contexts_append: "call_contexts (a @ b) = call_contexts a @ call_contexts b"
  by (induction a rule: call_contexts.induct) simp_all

text \<open>Click's runner and \<^verbatim>\<open>main\<close> add messages only, never a call of a handler.\<close>

lemma is_call_standalone_exception:
  "filter is_call (fst (main_except (standalone_exception evs cls msg))) = filter is_call evs"
  by (cases cls) (simp_all add: main_except_def)

lemma is_call_runner:
  "filter is_call (fst (main_except (standalone (evs, r)))) = filter is_call evs"
proof (cases r)
  case (Inl e)
  then show ?thesis by (simp add: standalone_def main_except_def)
next
  case (Inr out)
  show ?thesis
  proof (cases out)
    case Returns
    with Inr show ?thesis by (simp add: standalone_def main_except_def)
  next
    case (Raises x)
    with Inr show ?thesis
      by (cases x)
        (simp_all add: standalone_def is_call_standalone_exception,
          simp_all add: main_except_def)
  qed
qed

lemma call_contexts_standalone_exception:
  "call_contexts (fst (standalone_exception evs cls msg)) = call_contexts evs"
  by (cases cls) (simp_all add: call_contexts_append)

lemma call_contexts_standalone:
  "call_contexts (fst (standalone r)) = call_contexts (fst r)"
  by (cases r)
    (simp add: standalone_def call_contexts_append call_contexts_standalone_exception
      split: sum.split outcome.split exn.split)

lemma call_contexts_main_except:
  "call_contexts (fst (main_except r)) = call_contexts (fst r)"
  by (cases r)
    (simp add: main_except_def call_contexts_append split: outcome.split exn.split)

lemma is_call_cli: "filter is_call (snd (cli env c)) = []"
  by (simp add: snd_cli warning_def)

lemma call_contexts_cli: "call_contexts (snd (cli env c)) = []"
  by (simp add: snd_cli warning_def)

lemma resolve_create: "resolve_command ''create'' = Some Create"
  by (simp add: resolve_command_def commands_def)

text \<open>Nothing after the group callback repeats the first line of the warning.\<close>

lemma no_warning_standalone_exception:
  assumes "Echo Stdout (style_yellow w) \<notin> set evs"
  shows "Echo Stdout (style_yellow w) \<notin> set (fst (main_except (standalone_exception evs cls msg)))"
  using assms by (cases cls) (simp_all add: main_except_def)

lemma no_warning_runner:
  assumes "Echo Stdout (style_yellow w) \<notin> set evs"
  shows "Echo Stdout (style_yellow w) \<notin> set (fst (main_except (standalone (evs, r))))"
proof (cases r)
  case (Inl e)
  with assms show ?thesis by (simp add: standalone_def main_except_def)
next
  case (Inr out)
  show ?thesis
  proof (cases out)
    case Returns
    with Inr assms show ?thesis by (simp add: standalone_def main_except_def)
  next
    case (Raises x)
    with Inr assms show ?thesis
      by (cases x)
        (simp_all add: standalone_def no_warning_standalone_exception,
          simp_all add: main_except_def)
  qed
qed

lemma no_warning_command_main:
  "Echo Stdout (style_yellow w) \<notin> set (fst (command_main h cmd c ts))"
  by (cases cmd)
    (auto simp: command_main_def create_def delete_def validate_def version_def split_def
      Let_def style_yellow_def magnifier_def split: parse_result.splits)

lemma no_warning_after_group:
  "Echo Stdout (style_yellow w) \<notin> set (fst (main_except (standalone (command_main h cmd c ts))))"
  using no_warning_runner [OF no_warning_command_main, of w h cmd c ts
      "snd (command_main h cmd c ts)"]
  by simp

text \<open>The call of the group never ends in a \<^verbatim>\<open>KeyboardInterrupt\<close>.\<close>

lemma standalone_never_interrupt: "snd (standalone r) \<noteq> Raises KeyboardInterrupt"
proof (cases r)
  case (Pair evs x)
  have "snd (standalone_exception evs cls msg) \<noteq> Raises KeyboardInterrupt" for cls msg
    by (cases cls) simp_all
  with Pair show ?thesis
    by (simp add: standalone_def split: sum.split outcome.split exn.split)
qed

lemma cli_call_never_interrupt: "snd (cli_call h env ob name ts) \<noteq> Raises KeyboardInterrupt"
  by (simp add: cli_call_def standalone_never_interrupt)

section \<open>Facts about the parsing of \<^verbatim>\<open>create\<close>\<close>

lemma first_occurrences_snoc:
  "y \<notin> set xs \<Longrightarrow> first_occurrences (xs @ [y]) = first_occurrences xs @ [y]"
  by (simp add: first_occurrences_def)

lemma set_first_occurrences: "set (first_occurrences xs) = set xs"
  by (simp add: first_occurrences_def)

lemma given_in_order: "given ts n = Some v \<Longrightarrow> n \<in> set (option_order ts)"
  by (induction ts rule: option_order.induct) (auto split: option.splits if_splits)

lemma known_option_order:
  "option_error ps ts = None \<Longrightarrow>
     set (option_order ts) \<subseteq> set (value_options ps) \<union> set (flag_options ps)"
  by (induction ps ts rule: option_error.induct) (auto split: if_splits)

lemma create_option_names:
  "set (value_options create_params) \<union> set (flag_options create_params) =
     {''template'', ''category'', ''difficulty'', ''language'', ''interactive''}"
  by (auto simp: value_options_def flag_options_def param_defs)

lemma arguments_create: "arguments create_params = [click_argument ''module_name'' NoneV]"
  by (simp add: arguments_def param_defs)

text \<open>A word that uses an option wrongly ends the parsing, with or without \<^verbatim>\<open>--help\<close>.\<close>

lemma parse_args_option_error:
  "option_error ps ts = Some e \<Longrightarrow> parse_args ps ts = Usage e"
  by (simp add: parse_args_def parser_def)

text \<open>On a line whose options are used rightly, \<^verbatim>\<open>--help\<close> comes before the values.\<close>

lemma parse_args_help:
  "option_error ps ts = None \<Longrightarrow> Help \<in> set ts \<Longrightarrow> parse_args ps ts = Help_requested"
  by (simp add: parse_args_def parser_def)

text \<open>
  If some parameter of a first part of the processing order fails, processing stops
  with the error of the first one that fails.
\<close>

lemma process_params_fails:
  assumes "\<exists>p \<in> set A. \<exists>e. process_value st p = Inl e"
    and "\<And>p e. p \<in> set A \<Longrightarrow> process_value st p = Inl e \<Longrightarrow> Q e"
  shows "\<exists>e. process_params st (A @ B) kw = Inl e \<and> Q e"
  using assms
proof (induction A arbitrary: kw)
  case Nil
  then show ?case by simp
next
  case (Cons p A)
  show ?case
  proof (cases "process_value st p")
    case (Inl e)
    with Cons.prems(2)[of p e] show ?thesis by simp
  next
    case (Inr v)
    with Cons.prems(1) have "\<exists>p \<in> set A. \<exists>e. process_value st p = Inl e" by auto
    then have "\<exists>e. process_params st (A @ B) (kw(p_name p := v)) = Inl e \<and> Q e"
      by (rule Cons.IH) (auto intro: Cons.prems(2))
    with Inr show ?thesis by simp
  qed
qed

text \<open>A parameter fails because it is required and missing, or because of its choice.\<close>

lemma process_value_fails:
  assumes "process_value st p = Inl e"
  shows "(p_required p \<and> e = MissingParameter (p_name p)) \<or>
         (\<exists>cs s. p_type p = Choice cs \<and> s \<notin> set cs \<and> e = BadParameter (p_name p) s cs)"
proof (cases "consume_value st p")
  case (Str s)
  with assms show ?thesis
    by (cases "p_type p") (auto simp: process_value_def split: if_splits)
next
  case (Bool b)
  with assms show ?thesis
    by (cases "p_type p") (auto simp: process_value_def)
next
  case NoneV
  with assms show ?thesis
    by (auto simp: process_value_def split: if_splits)
qed

text \<open>Of the options of \<^verbatim>\<open>create\<close>, only the two choices can fail.\<close>

lemma create_option_failure:
  assumes "p \<in> set create_params" and "p_name p \<noteq> ''module_name''"
    and "process_value st p = Inl e"
  shows "invalid_choice e"
proof -
  from assms(1,2) have "\<not> p_required p"
    by (auto simp: param_defs)
  with process_value_fails[OF assms(3)] obtain cs s
    where c: "p_type p = Choice cs" "s \<notin> set cs" "e = BadParameter (p_name p) s cs"
    by blast
  from assms(1) c(1) have
    "p_name p = ''difficulty'' \<and> cs = [''beginner'', ''intermediate'', ''advanced''] \<or>
     p_name p = ''language'' \<and> cs = [''ru'', ''en'']"
    by (auto simp: param_defs)
  with c(2,3) show ?thesis by blast
qed

lemma parser_create:
  assumes "option_error create_params ts = None"
  shows "\<exists>st. parser create_params ts = Inr st \<and> order st = option_order ts @ [''module_name'']
           \<and> (\<forall>n. n \<noteq> ''module_name'' \<longrightarrow> opts st n = given ts n)"
  using assms
  by (simp add: parser_def arguments_create click_argument_def split: list.split)

lemma parse_args_create_invalid:
  assumes H: "(\<exists>d. given ts ''difficulty'' = Some (Str d) \<and>
                  d \<notin> set [''beginner'', ''intermediate'', ''advanced'']) \<or>
              (\<exists>l. given ts ''language'' = Some (Str l) \<and> l \<notin> set [''ru'', ''en''])"
    and None: "option_error create_params ts = None"
    and nohelp: "Help \<notin> set ts"
  shows "\<exists>e. parse_args create_params ts = Usage e \<and> invalid_choice e"
proof -
  from parser_create[OF None] obtain st where st: "parser create_params ts = Inr st"
    and ord: "order st = option_order ts @ [''module_name'']"
    and opts: "\<And>n. n \<noteq> ''module_name'' \<Longrightarrow> opts st n = given ts n"
    by blast
  let ?f = "\<lambda>n. filter (\<lambda>p. p_name p = n) create_params"
  let ?A = "concat (map ?f (first_occurrences (option_order ts)))"
  let ?B = "?f ''module_name'' @ filter (\<lambda>p. p_name p \<notin> set (order st)) create_params"
  have names: "set (option_order ts) \<subseteq>
      {''template'', ''category'', ''difficulty'', ''language'', ''interactive''}"
    using known_option_order[OF None] by (simp only: create_option_names)
  then have notin: "''module_name'' \<notin> set (option_order ts)" by auto
  have L: "iter_params_for_processing (order st) create_params = ?A @ ?B"
    by (simp add: iter_params_for_processing_def ord first_occurrences_snoc[OF notin])
  have setA: "set ?A = {p \<in> set create_params. p_name p \<in> set (option_order ts)}"
    by (auto simp: set_first_occurrences)
  have ex: "\<exists>p \<in> set ?A. \<exists>e. process_value st p = Inl e"
    using H
  proof
    assume "\<exists>d. given ts ''difficulty'' = Some (Str d) \<and>
      d \<notin> set [''beginner'', ''intermediate'', ''advanced'']"
    then obtain d where d: "given ts ''difficulty'' = Some (Str d)"
      "d \<notin> set [''beginner'', ''intermediate'', ''advanced'']"
      by blast
    let ?p = "click_option [''--difficulty'', ''-d''] ''difficulty''
        (Choice [''beginner'', ''intermediate'', ''advanced'']) (Str ''beginner'')"
    have "?p \<in> set ?A"
      unfolding setA using given_in_order[OF d(1)] by (simp add: create_params_def click_option_def)
    moreover have "process_value st ?p =
        Inl (BadParameter ''difficulty'' d [''beginner'', ''intermediate'', ''advanced''])"
      using d opts[of "''difficulty''"]
      by (simp add: process_value_def consume_value_def click_option_def)
    ultimately show ?thesis by blast
  next
    assume "\<exists>l. given ts ''language'' = Some (Str l) \<and> l \<notin> set [''ru'', ''en'']"
    then obtain l where l: "given ts ''language'' = Some (Str l)" "l \<notin> set [''ru'', ''en'']"
      by blast
    let ?p = "click_option [''--language'', ''-l''] ''language'' (Choice [''ru'', ''en''])
        (Str ''ru'')"
    have "?p \<in> set ?A"
      unfolding setA using given_in_order[OF l(1)] by (simp add: create_params_def click_option_def)
    moreover have "process_value st ?p = Inl (BadParameter ''language'' l [''ru'', ''en''])"
      using l opts[of "''language''"]
      by (simp add: process_value_def consume_value_def click_option_def)
    ultimately show ?thesis by blast
  qed
  have all: "\<And>p e. p \<in> set ?A \<Longrightarrow> process_value st p = Inl e \<Longrightarrow> invalid_choice e"
  proof -
    fix p e assume p: "p \<in> set ?A" and e: "process_value st p = Inl e"
    from p have "p \<in> set create_params" and "p_name p \<in> set (option_order ts)"
      unfolding setA by simp_all
    with notin have "p_name p \<noteq> ''module_name''" by auto
    with \<open>p \<in> set create_params\<close> e show "invalid_choice e"
      using create_option_failure by blast
  qed
  have "\<exists>e. process_params st (?A @ ?B) (\<lambda>n. NoneV) = Inl e \<and> invalid_choice e"
    using ex by (rule process_params_fails [where Q = "\<lambda>e. invalid_choice e"]) (rule all)
  then show ?thesis using nohelp by (auto simp: parse_args_def st L)
qed

section \<open>The options of \<^verbatim>\<open>create\<close>\<close>

text \<open>
  C1, as stated, fails: with \<^verbatim>\<open>--help\<close> on the line, a run of \<^verbatim>\<open>create\<close> whose
  \<^verbatim>\<open>--difficulty\<close> is not permitted prints the help page and exits with status 0;
  and with an unknown option on the line, the usage error names that option and reports
  no permitted values.
\<close>

theorem create_invalid_choice_counterexample:
  "given [Pos ''x'', Opt ''difficulty'' ''expert'', Help] ''difficulty'' = Some (Str ''expert'') \<and>
   ''expert'' \<notin> set [''beginner'', ''intermediate'', ''advanced''] \<and>
   main handlers_returning [''GITHUB_TOKEN'' \<mapsto> ''ghp_1''] ''create''
     [Pos ''x'', Opt ''difficulty'' ''expert'', Help] =
     ([Show_help], Raises (SystemExit 0)) \<and>
   given [Pos ''x'', Opt ''difficulty'' ''expert'', Flg ''bogus''] ''difficulty'' =
     Some (Str ''expert'') \<and>
   main handlers_returning [''GITHUB_TOKEN'' \<mapsto> ''ghp_1''] ''create''
     [Pos ''x'', Opt ''difficulty'' ''expert'', Flg ''bogus''] =
     ([Show_usage_error (NoSuchOption ''bogus'')], Raises (SystemExit 2))"
  by (simp add: run_defs parse_defs param_defs handlers_returning_def)

text \<open>
  C1, amended. When the value that the command line gives for \<^verbatim>\<open>--difficulty\<close> is
  not one of \<^verbatim>\<open>beginner\<close>, \<^verbatim>\<open>intermediate\<close>, \<^verbatim>\<open>advanced\<close>, or the value given
  for \<^verbatim>\<open>--language\<close> is not one of \<^verbatim>\<open>ru\<close>, \<^verbatim>\<open>en\<close>, no run of \<^verbatim>\<open>create\<close>
  calls \<^verbatim>\<open>create_module\<close>. If a word of the line uses an option wrongly, the run
  ends, after what the group callback prints, with the usage error of the first such
  word and exit status 2. Otherwise, if \<^verbatim>\<open>--help\<close> is on the line, the run prints
  the help page and exits with status 0. Otherwise the run ends with a usage error that
  is the invalid choice of one of the two options and reports the permitted values of
  that option, and the exit status is 2.
\<close>

theorem create_rejects_invalid_choice:
  assumes "(\<exists>d. given ts ''difficulty'' = Some (Str d) \<and>
               d \<notin> set [''beginner'', ''intermediate'', ''advanced'']) \<or>
           (\<exists>l. given ts ''language'' = Some (Str l) \<and> l \<notin> set [''ru'', ''en''])"
  shows "filter is_call (fst (main h env ''create'' ts)) = [] \<and>
         (option_error create_params ts = Some e0 \<longrightarrow>
            main h env ''create'' ts =
              (snd (cli env \<lparr>obj = Some []\<rparr>) @ [Show_usage_error e0], Raises (SystemExit 2))) \<and>
         (option_error create_params ts = None \<and> Help \<in> set ts \<longrightarrow>
            main h env ''create'' ts =
              (snd (cli env \<lparr>obj = Some []\<rparr>) @ [Show_help], Raises (SystemExit 0))) \<and>
         (option_error create_params ts = None \<and> Help \<notin> set ts \<longrightarrow>
            (\<exists>e. main h env ''create'' ts =
                   (snd (cli env \<lparr>obj = Some []\<rparr>) @ [Show_usage_error e],
                    Raises (SystemExit 2)) \<and>
                 ((\<exists>v. v \<notin> set [''beginner'', ''intermediate'', ''advanced''] \<and>
                      e = BadParameter ''difficulty'' v
                            [''beginner'', ''intermediate'', ''advanced'']) \<or>
                  (\<exists>v. v \<notin> set [''ru'', ''en''] \<and>
                      e = BadParameter ''language'' v [''ru'', ''en'']))))"
proof -
  let ?c = "make_context (ensure_object \<lparr>obj = Some []\<rparr>)"
  let ?out = "snd (cli env \<lparr>obj = Some []\<rparr>)"
  have m: "main h env ''create'' ts =
      (?out @ fst (main_except (standalone (command_main h Create ?c ts))),
       snd (main_except (standalone (command_main h Create ?c ts))))"
    by (rule main_resolved [OF resolve_create])
  have a: "main h env ''create'' ts = (?out @ [Show_usage_error e], Raises (SystemExit 2))"
    if "parse_args create_params ts = Usage e" for e
    using that by (simp add: m command_main_def standalone_def main_except_def)
  have b: "main h env ''create'' ts = (?out @ [Show_help], Raises (SystemExit 0))"
    if "parse_args create_params ts = Help_requested"
    using that by (simp add: m command_main_def standalone_def main_except_def)
  have n1: "filter is_call (?out @ [Show_usage_error e]) = []" for e
    by (simp add: is_call_cli)
  have n2: "filter is_call (?out @ [Show_help]) = []"
    by (simp add: is_call_cli)
  have 1: "option_error create_params ts = Some e0 \<longrightarrow>
      main h env ''create'' ts = (?out @ [Show_usage_error e0], Raises (SystemExit 2))"
  proof
    assume "option_error create_params ts = Some e0"
    then have "parse_args create_params ts = Usage e0" by (rule parse_args_option_error)
    then show "main h env ''create'' ts = (?out @ [Show_usage_error e0], Raises (SystemExit 2))"
      by (rule a)
  qed
  have 2: "option_error create_params ts = None \<and> Help \<in> set ts \<longrightarrow>
      main h env ''create'' ts = (?out @ [Show_help], Raises (SystemExit 0))"
  proof
    assume "option_error create_params ts = None \<and> Help \<in> set ts"
    then have "parse_args create_params ts = Help_requested"
      using parse_args_help [of create_params ts] by simp
    then show "main h env ''create'' ts = (?out @ [Show_help], Raises (SystemExit 0))"
      by (rule b)
  qed
  have bad: "\<exists>e. main h env ''create'' ts =
        (?out @ [Show_usage_error e], Raises (SystemExit 2)) \<and> invalid_choice e"
    if n: "option_error create_params ts = None" and nh: "Help \<notin> set ts"
  proof -
    from parse_args_create_invalid [OF assms n nh] obtain e
      where pe: "parse_args create_params ts = Usage e \<and> invalid_choice e" ..
    from pe have "main h env ''create'' ts = (?out @ [Show_usage_error e], Raises (SystemExit 2))"
      by (intro a) (rule conjunct1)
    moreover from pe have "invalid_choice e" by (rule conjunct2)
    ultimately have "main h env ''create'' ts =
        (?out @ [Show_usage_error e], Raises (SystemExit 2)) \<and> invalid_choice e"
      by (rule conjI)
    then show ?thesis
      by (rule exI [of "\<lambda>e. main h env ''create'' ts =
        (?out @ [Show_usage_error e], Raises (SystemExit 2)) \<and> invalid_choice e" e])
  qed
  have 3: "option_error create_params ts = None \<and> Help \<notin> set ts \<longrightarrow>
      (\<exists>e. main h env ''create'' ts = (?out @ [Show_usage_error e], Raises (SystemExit 2)) \<and>
           invalid_choice e)"
  proof
    assume c: "option_error create_params ts = None \<and> Help \<notin> set ts"
    show "\<exists>e. main h env ''create'' ts =
        (?out @ [Show_usage_error e], Raises (SystemExit 2)) \<and> invalid_choice e"
      by (rule bad) (rule c [THEN conjunct1], rule c [THEN conjunct2])
  qed
  have 0: "filter is_call (fst (main h env ''create'' ts)) = []"
  proof (cases "option_error create_params ts")
    case (Some e)
    then have "parse_args create_params ts = Usage e" by (rule parse_args_option_error)
    then have "main h env ''create'' ts = (?out @ [Show_usage_error e], Raises (SystemExit 2))"
      by (rule a)
    then show ?thesis by (simp only: fst_conv n1)
  next
    case None
    show ?thesis
    proof (cases "Help \<in> set ts")
      case True
      with None have "parse_args create_params ts = Help_requested" by (simp add: parse_args_help)
      then have "main h env ''create'' ts = (?out @ [Show_help], Raises (SystemExit 0))"
        by (rule b)
      then show ?thesis by (simp only: fst_conv n2)
    next
      case False
      from bad [OF None False] obtain e where
        e: "main h env ''create'' ts = (?out @ [Show_usage_error e], Raises (SystemExit 2)) \<and>
          invalid_choice e" ..
      from e [THEN conjunct1] show ?thesis by (simp only: fst_conv n1)
    qed
  qed
  from 0 1 2 3 show ?thesis by (intro conjI)
qed

theorem create_rejects_invalid_choice_witness:
  "given [Pos ''python-basics'', Opt ''difficulty'' ''expert''] ''difficulty'' = Some (Str ''expert'') \<and>
   ''expert'' \<notin> set [''beginner'', ''intermediate'', ''advanced''] \<and>
   option_error create_params [Pos ''python-basics'', Opt ''difficulty'' ''expert''] = None \<and>
   Help \<notin> set [Pos ''python-basics'', Opt ''difficulty'' ''expert''] \<and>
   main \<lparr>create_module = (\<lambda>c a1 a2 a3 a4 a5 a6. ([''mkdir''], Returns)),
        delete_module = (\<lambda>c a1 a2 a3. ([''rmdir''], Returns))\<rparr>
      [''GITHUB_TOKEN'' \<mapsto> ''ghp_1''] ''create''
      [Pos ''python-basics'', Opt ''difficulty'' ''expert''] =
     ([Show_usage_error
         (BadParameter ''difficulty'' ''expert'' [''beginner'', ''intermediate'', ''advanced''])],
      Raises (SystemExit 2)) \<and>
   filter is_call (fst (main \<lparr>create_module = (\<lambda>c a1 a2 a3 a4 a5 a6. ([''mkdir''], Returns)),
        delete_module = (\<lambda>c a1 a2 a3. ([''rmdir''], Returns))\<rparr>
      [''GITHUB_TOKEN'' \<mapsto> ''ghp_1''] ''create''
      [Pos ''python-basics'', Opt ''difficulty'' ''expert''])) = []"
proof -
  let ?ts = "[Pos ''python-basics'', Opt ''difficulty'' ''expert'']"
  let ?h = "\<lparr>create_module = (\<lambda>c a1 a2 a3 a4 a5 a6. ([''mkdir''], Returns)),
        delete_module = (\<lambda>c a1 a2 a3. ([''rmdir''], Returns))\<rparr>"
  have hyp: "given ?ts ''difficulty'' = Some (Str ''expert'') \<and>
      ''expert'' \<notin> set [''beginner'', ''intermediate'', ''advanced'']"
    by simp
  then have inv: "(\<exists>d. given ?ts ''difficulty'' = Some (Str d) \<and>
               d \<notin> set [''beginner'', ''intermediate'', ''advanced'']) \<or>
           (\<exists>l. given ?ts ''language'' = Some (Str l) \<and> l \<notin> set [''ru'', ''en''])"
    by blast
  have ok: "option_error create_params ?ts = None \<and> Help \<notin> set ?ts"
    by (simp add: value_options_def flag_options_def param_defs)
  have nocall: "filter is_call (fst (main ?h [''GITHUB_TOKEN'' \<mapsto> ''ghp_1''] ''create'' ?ts)) = []"
    using create_rejects_invalid_choice [OF inv, of ?h "[''GITHUB_TOKEN'' \<mapsto> ''ghp_1'']"]
    by (rule conjunct1)
  have "main ?h [''GITHUB_TOKEN'' \<mapsto> ''ghp_1''] ''create'' ?ts =
     ([Show_usage_error
         (BadParameter ''difficulty'' ''expert'' [''beginner'', ''intermediate'', ''advanced''])],
      Raises (SystemExit 2))"
    by (simp add: run_defs parse_defs param_defs)
  with hyp ok nocall show ?thesis by simp
qed

text \<open>
  C2. \<^verbatim>\<open>create\<close> with a module name and nothing else runs the callback with the name
  and the defaults of the five options, and in the whole run the handlers are called
  exactly once: \<^verbatim>\<open>create_module\<close>, with the name, \<^verbatim>\<open>module-basic\<close>,
  \<^verbatim>\<open>programming\<close>, \<^verbatim>\<open>beginner\<close>, \<^verbatim>\<open>ru\<close> and \<^verbatim>\<open>False\<close>.
\<close>

theorem create_defaults:
  "command_main h Create c [Pos name] =
     (fst (create h c (Str name) (Str ''module-basic'') (Str ''programming'') (Str ''beginner'')
             (Str ''ru'') (Bool False)),
      Inr (snd (create h c (Str name) (Str ''module-basic'') (Str ''programming'')
             (Str ''beginner'') (Str ''ru'') (Bool False)))) \<and>
   filter is_call (fst (main h env ''create'' [Pos name])) =
     [Create_module \<lparr>obj = Some []\<rparr> (Str name) (Str ''module-basic'') (Str ''programming'')
        (Str ''beginner'') (Str ''ru'') (Bool False)]"
proof -
  have cm: "command_main h Create c [Pos name] =
     (fst (create h c (Str name) (Str ''module-basic'') (Str ''programming'') (Str ''beginner'')
             (Str ''ru'') (Bool False)),
      Inr (snd (create h c (Str name) (Str ''module-basic'') (Str ''programming'')
             (Str ''beginner'') (Str ''ru'') (Bool False))))" for c
    by (simp add: command_main_def parse_defs param_defs split_def Let_def)
  have "filter is_call (fst (main h env ''create'' [Pos name])) =
     [Create_module \<lparr>obj = Some []\<rparr> (Str name) (Str ''module-basic'') (Str ''programming'')
        (Str ''beginner'') (Str ''ru'') (Bool False)]"
    by (simp add: main_resolved[OF resolve_create] cm is_call_cli is_call_runner create_def
        split_def Let_def filter_is_call_effects make_context_def ensure_object_def)
  with cm show ?thesis by simp
qed

theorem create_defaults_witness:
  "main \<lparr>create_module = (\<lambda>c a1 a2 a3 a4 a5 a6. ([''mkdir''], Returns)),
        delete_module = (\<lambda>c a1 a2 a3. ([''rmdir''], Returns))\<rparr>
      Map.empty ''create'' [Pos ''python-basics''] =
     (warning @
      [Create_module \<lparr>obj = Some []\<rparr> (Str ''python-basics'') (Str ''module-basic'')
         (Str ''programming'') (Str ''beginner'') (Str ''ru'') (Bool False),
       Handler_effect ''mkdir''],
      Raises (SystemExit 0)) \<and>
   filter is_call (fst (main \<lparr>create_module = (\<lambda>c a1 a2 a3 a4 a5 a6. ([''mkdir''], Returns)),
        delete_module = (\<lambda>c a1 a2 a3. ([''rmdir''], Returns))\<rparr>
      Map.empty ''create'' [Pos ''python-basics''])) =
     [Create_module \<lparr>obj = Some []\<rparr> (Str ''python-basics'') (Str ''module-basic'')
        (Str ''programming'') (Str ''beginner'') (Str ''ru'') (Bool False)]"
proof -
  let ?h = "\<lparr>create_module = (\<lambda>c a1 a2 a3 a4 a5 a6. ([''mkdir''], Returns)),
        delete_module = (\<lambda>c a1 a2 a3. ([''rmdir''], Returns))\<rparr>"
  have "main ?h Map.empty ''create'' [Pos ''python-basics''] =
     (warning @
      [Create_module \<lparr>obj = Some []\<rparr> (Str ''python-basics'') (Str ''module-basic'')
         (Str ''programming'') (Str ''beginner'') (Str ''ru'') (Bool False),
       Handler_effect ''mkdir''],
      Raises (SystemExit 0))"
    by (simp add: run_defs parse_defs param_defs)
  with create_defaults [of ?h _ "''python-basics''" Map.empty]
  show ?thesis by simp
qed

section \<open>The entry point: failures and interrupts\<close>

text \<open>
  C3, as stated, fails: a handler that fails with a broken pipe ends the process with
  status 1 and no message at all, on either stream; and a handler that raises a
  \<^verbatim>\<open>ClickException\<close> gets Click's own line \<^verbatim>\<open>Error: boom\<close>, which does not
  carry the failure marker of \<^verbatim>\<open>main\<close>.
\<close>

theorem exception_reported_counterexample:
  "main (handlers_raising (Exception BrokenPipe ''[Errno 32] Broken pipe''))
      [''GITHUB_TOKEN'' \<mapsto> ''ghp_1''] ''create'' [Pos ''python-basics''] =
     ([Create_module \<lparr>obj = Some []\<rparr> (Str ''python-basics'') (Str ''module-basic'')
         (Str ''programming'') (Str ''beginner'') (Str ''ru'') (Bool False),
       Handler_effect ''mkdir''],
      Raises (SystemExit 1)) \<and>
   echoed Stderr (fst (main (handlers_raising (Exception BrokenPipe ''[Errno 32] Broken pipe''))
      [''GITHUB_TOKEN'' \<mapsto> ''ghp_1''] ''create'' [Pos ''python-basics''])) = [] \<and>
   echoed Stdout (fst (main (handlers_raising (Exception BrokenPipe ''[Errno 32] Broken pipe''))
      [''GITHUB_TOKEN'' \<mapsto> ''ghp_1''] ''create'' [Pos ''python-basics''])) = [] \<and>
   echoed Stderr (fst (main (handlers_raising (Exception (ClickException 1) ''boom''))
      [''GITHUB_TOKEN'' \<mapsto> ''ghp_1''] ''create'' [Pos ''python-basics''])) = [''Error: boom'']"
  by (simp add: run_defs parse_defs param_defs handlers_raising_def)

text \<open>
  C3, amended. An exception that a callback raises and that Click's runner does not
  handle itself reaches \<^verbatim>\<open>main\<close>, which adds exactly one message, on the error
  stream: the failure marker, \<open>Error:\<close> and the text of the exception; the process exits
  with status 1. The exceptions that Click's runner handles itself do not reach
  \<^verbatim>\<open>main\<close>: a \<^verbatim>\<open>ClickException\<close> is printed by Click as \<open>Error:\<close> and its text, on
  the error stream, and the process exits with the code of the exception; a usage error
  is shown and the status is 2; \<^verbatim>\<open>Abort\<close> and \<^verbatim>\<open>EOFError\<close> give \<open>Aborted!\<close> on the
  error stream and status 1; \<^verbatim>\<open>Exit\<close> leaves with its code; a broken pipe leaves with
  status 1 and no message.
\<close>

theorem exception_reported:
  assumes "group_invoke h env \<lparr>obj = Some []\<rparr> name ts = (evs, Inr (Raises (Exception cls msg)))"
  shows "main h env name ts =
     (case cls of
        Other \<Rightarrow>
          (evs @ [Echo Stderr ([CHR 0xE2, CHR 0x9D, CHR 0x8C] @ '' Error: '' @ msg)], Raises (SystemExit 1))
      | ClickException n \<Rightarrow> (evs @ [Echo Stderr (''Error: '' @ msg)], Raises (SystemExit n))
      | UsageErrorRaised \<Rightarrow> (evs @ [Show_usage_error (UsageError msg)], Raises (SystemExit 2))
      | Abort \<Rightarrow> (evs @ [Echo Stderr ''Aborted!''], Raises (SystemExit 1))
      | EOFError \<Rightarrow> (evs @ [Echo Stderr [], Echo Stderr ''Aborted!''], Raises (SystemExit 1))
      | Exit n \<Rightarrow> (evs, Raises (SystemExit n))
      | BrokenPipe \<Rightarrow> (evs, Raises (SystemExit 1)))"
  using assms
  by (cases cls)
    (simp_all add: main_def cli_call_def standalone_def main_except_def error_message_def
      cross_mark_def)

theorem exception_reported_witness:
  "group_invoke (handlers_raising (Exception Other ''disk full'')) [''GITHUB_TOKEN'' \<mapsto> ''ghp_1''] \<lparr>obj = Some []\<rparr>
      ''create'' [Pos ''python-basics''] =
     ([Create_module \<lparr>obj = Some []\<rparr> (Str ''python-basics'') (Str ''module-basic'')
         (Str ''programming'') (Str ''beginner'') (Str ''ru'') (Bool False),
       Handler_effect ''mkdir''],
      Inr (Raises (Exception Other ''disk full''))) \<and>
   main (handlers_raising (Exception Other ''disk full'')) [''GITHUB_TOKEN'' \<mapsto> ''ghp_1'']
      ''create'' [Pos ''python-basics''] =
     ([Create_module \<lparr>obj = Some []\<rparr> (Str ''python-basics'') (Str ''module-basic'')
         (Str ''programming'') (Str ''beginner'') (Str ''ru'') (Bool False),
       Handler_effect ''mkdir'',
       Echo Stderr ([CHR 0xE2, CHR 0x9D, CHR 0x8C] @ '' Error: disk full'')],
      Raises (SystemExit 1))"
proof -
  let ?h = "handlers_raising (Exception Other ''disk full'')"
  have g: "group_invoke ?h [''GITHUB_TOKEN'' \<mapsto> ''ghp_1''] \<lparr>obj = Some []\<rparr> ''create'' [Pos ''python-basics''] =
        ([Create_module \<lparr>obj = Some []\<rparr> (Str ''python-basics'') (Str ''module-basic'')
            (Str ''programming'') (Str ''beginner'') (Str ''ru'') (Bool False),
          Handler_effect ''mkdir''], Inr (Raises (Exception Other ''disk full'')))"
    by (simp add: run_defs parse_defs param_defs handlers_raising_def)
  from exception_reported [OF g] g show ?thesis by simp
qed

text \<open>
  C4. The claim fails on the code. A \<^verbatim>\<open>KeyboardInterrupt\<close> raised while
  \<^verbatim>\<open>delete module-x\<close> runs is caught inside the call \<^verbatim>\<open>cli(obj={})\<close> by Click's
  runner, which prints an empty line and \<^verbatim>\<open>Aborted!\<close> on the error stream and exits
  with status 1. The handler for \<^verbatim>\<open>KeyboardInterrupt\<close> in \<^verbatim>\<open>main\<close> does not run,
  and its cancellation notice is not printed.
\<close>

theorem interrupt_during_delete:
  "main (handlers_raising KeyboardInterrupt) [''GITHUB_TOKEN'' \<mapsto> ''ghp_1''] ''delete'' [Pos ''module-x''] =
     ([Delete_module \<lparr>obj = Some []\<rparr> (Str ''module-x'') (Bool False) (Bool False),
       Handler_effect ''confirm'',
       Echo Stderr [], Echo Stderr ''Aborted!''],
      Raises (SystemExit 1)) \<and>
   Echo Stdout cancelled_notice \<notin>
     set (fst (main (handlers_raising KeyboardInterrupt) [''GITHUB_TOKEN'' \<mapsto> ''ghp_1''] ''delete'' [Pos ''module-x'']))"
  by (simp add: run_defs parse_defs param_defs handlers_raising_def)

text \<open>
  C9. The claim fails on the code. On a \<^verbatim>\<open>KeyboardInterrupt\<close> raised while
  \<^verbatim>\<open>delete module-x\<close> runs, nothing is written to standard output; the notice of the
  interrupt, \<^verbatim>\<open>Aborted!\<close> after an empty line, is written to the error stream.
\<close>

theorem interrupt_notice_on_stderr:
  "echoed Stdout
     (fst (main (handlers_raising KeyboardInterrupt) [''GITHUB_TOKEN'' \<mapsto> ''ghp_1''] ''delete'' [Pos ''module-x''])) = [] \<and>
   echoed Stderr
     (fst (main (handlers_raising KeyboardInterrupt) [''GITHUB_TOKEN'' \<mapsto> ''ghp_1''] ''delete'' [Pos ''module-x''])) =
     [[], ''Aborted!'']"
  by (simp add: run_defs parse_defs param_defs handlers_raising_def)

section \<open>The missing token\<close>

text \<open>
  C5. When \<^verbatim>\<open>GITHUB_TOKEN\<close> is unset, the run of any sub-command is the warning
  followed by the run of the same command line with the token set: the warning comes
  first, the sub-command then does what it does otherwise and ends the same way, and the
  first line of the warning occurs exactly once among the effects.
\<close>

theorem warning_once_before_subcommand:
  assumes "env ''GITHUB_TOKEN'' = None" and "resolve_command name = Some cmd" and "token \<noteq> []"
  shows "main h env name ts =
           (warning @ fst (main h (env(''GITHUB_TOKEN'' \<mapsto> token)) name ts),
            snd (main h (env(''GITHUB_TOKEN'' \<mapsto> token)) name ts)) \<and>
         count_list (fst (main h env name ts))
           (Echo Stdout (style_yellow ''Warning: GITHUB_TOKEN not found in environment'')) = 1"
  using assms no_warning_after_group[of "''Warning: GITHUB_TOKEN not found in environment''" h cmd
      "make_context (ensure_object \<lparr>obj = Some []\<rparr>)" ts]
  by (simp add: main_resolved[OF assms(2)] snd_cli warning_def count_list_0_iff style_yellow_def)

theorem warning_once_before_subcommand_witness:
  "Map.empty ''GITHUB_TOKEN'' = (None :: string option) \<and>
   resolve_command ''delete'' = Some Delete \<and>
   main \<lparr>create_module = (\<lambda>c a1 a2 a3 a4 a5 a6. ([''mkdir''], Returns)),
        delete_module = (\<lambda>c a1 a2 a3. ([''rmdir''], Returns))\<rparr>
      Map.empty ''delete'' [Pos ''old-module'', Flg ''force''] =
     (warning @
      [Delete_module \<lparr>obj = Some []\<rparr> (Str ''old-module'') (Bool True) (Bool False),
       Handler_effect ''rmdir''],
      Raises (SystemExit 0)) \<and>
   count_list (fst (main \<lparr>create_module = (\<lambda>c a1 a2 a3 a4 a5 a6. ([''mkdir''], Returns)),
        delete_module = (\<lambda>c a1 a2 a3. ([''rmdir''], Returns))\<rparr>
      Map.empty ''delete'' [Pos ''old-module'', Flg ''force'']))
     (Echo Stdout (style_yellow ''Warning: GITHUB_TOKEN not found in environment'')) = 1"
proof -
  let ?h = "\<lparr>create_module = (\<lambda>c a1 a2 a3 a4 a5 a6. ([''mkdir''], Returns)),
        delete_module = (\<lambda>c a1 a2 a3. ([''rmdir''], Returns))\<rparr>"
  have r: "resolve_command ''delete'' = Some Delete"
    by (simp add: resolve_command_def commands_def)
  have "main ?h [''GITHUB_TOKEN'' \<mapsto> ''ghp_1''] ''delete'' [Pos ''old-module'', Flg ''force''] =
     ([Delete_module \<lparr>obj = Some []\<rparr> (Str ''old-module'') (Bool True) (Bool False),
       Handler_effect ''rmdir''],
      Raises (SystemExit 0))"
    by (simp add: run_defs parse_defs param_defs)
  with warning_once_before_subcommand [where env = Map.empty and name = "''delete''"
      and cmd = Delete and token = "''ghp_1''" and h = ?h
      and ts = "[Pos ''old-module'', Flg ''force'']", OF _ r]
  show ?thesis by (simp add: r warning_def style_yellow_def)
qed

text \<open>
  C10. The group callback prints the three lines of the warning exactly when the value
  that \<^verbatim>\<open>os.getenv('GITHUB_TOKEN')\<close> returns is false in Python: when the variable
  is unset, and also when it is set to the empty string; for every other value it prints
  nothing. So the yellow line of the warning is among the effects of a run of a
  sub-command exactly when the variable is unset or empty.
\<close>

theorem warning_iff_token_falsy:
  "snd (cli env c) =
     (if env ''GITHUB_TOKEN'' = None \<or> env ''GITHUB_TOKEN'' = Some []
      then [Echo Stdout (CHR 0x1B # ''[33mWarning: GITHUB_TOKEN not found in environment'' @ CHR 0x1B # ''[0m''),
            Echo Stdout ''Some features may not work properly.'',
            Echo Stdout ''Please set GITHUB_TOKEN in your .env file.'']
      else []) \<and>
   (resolve_command name = Some cmd \<longrightarrow>
      (Echo Stdout (CHR 0x1B # ''[33mWarning: GITHUB_TOKEN not found in environment'' @ CHR 0x1B # ''[0m'')
         \<in> set (fst (main h env name ts))) =
      (env ''GITHUB_TOKEN'' = None \<or> env ''GITHUB_TOKEN'' = Some []))"
proof -
  have y: "(CHR 0x1B # ''[33mWarning: GITHUB_TOKEN not found in environment'' @ CHR 0x1B # ''[0m'') =
      style_yellow ''Warning: GITHUB_TOKEN not found in environment''"
    by (simp add: style_yellow_def)
  have 1: "snd (cli env c) =
     (if env ''GITHUB_TOKEN'' = None \<or> env ''GITHUB_TOKEN'' = Some []
      then [Echo Stdout (CHR 0x1B # ''[33mWarning: GITHUB_TOKEN not found in environment'' @ CHR 0x1B # ''[0m''),
            Echo Stdout ''Some features may not work properly.'',
            Echo Stdout ''Please set GITHUB_TOKEN in your .env file.'']
      else [])" for c
    by (simp add: snd_cli warning_def style_yellow_def)
  have 2: "(Echo Stdout (CHR 0x1B # ''[33mWarning: GITHUB_TOKEN not found in environment'' @ CHR 0x1B # ''[0m'')
         \<in> set (fst (main h env name ts))) =
      (env ''GITHUB_TOKEN'' = None \<or> env ''GITHUB_TOKEN'' = Some [])"
    if r: "resolve_command name = Some cmd"
    using no_warning_after_group [of "''Warning: GITHUB_TOKEN not found in environment''" h cmd
        "make_context (ensure_object \<lparr>obj = Some []\<rparr>)" ts]
    unfolding y [symmetric]
    by (simp add: main_resolved [OF r] 1)
  from 1 2 show ?thesis by blast
qed

theorem warning_iff_token_falsy_witness:
  "resolve_command ''version'' = Some Version \<and>
   Echo Stdout (CHR 0x1B # ''[33mWarning: GITHUB_TOKEN not found in environment'' @ CHR 0x1B # ''[0m'')
     \<in> set (fst (main handlers_returning [''GITHUB_TOKEN'' \<mapsto> []] ''version'' [])) \<and>
   Echo Stdout (CHR 0x1B # ''[33mWarning: GITHUB_TOKEN not found in environment'' @ CHR 0x1B # ''[0m'')
     \<in> set (fst (main handlers_returning Map.empty ''version'' [])) \<and>
   Echo Stdout (CHR 0x1B # ''[33mWarning: GITHUB_TOKEN not found in environment'' @ CHR 0x1B # ''[0m'')
     \<notin> set (fst (main handlers_returning [''GITHUB_TOKEN'' \<mapsto> ''ghp_1''] ''version'' []))"
proof -
  have r: "resolve_command ''version'' = Some Version"
    by (simp add: resolve_command_def commands_def)
  from warning_iff_token_falsy [of "[''GITHUB_TOKEN'' \<mapsto> []]" _ "''version''" Version
      handlers_returning "[]"]
    warning_iff_token_falsy [of Map.empty _ "''version''" Version handlers_returning "[]"]
    warning_iff_token_falsy [of "[''GITHUB_TOKEN'' \<mapsto> ''ghp_1'']" _ "''version''" Version handlers_returning "[]"]
    r
  show ?thesis by simp
qed

section \<open>The stub commands\<close>

text \<open>
  C6. For every path, \<^verbatim>\<open>validate\<close> does nothing but print two messages on standard
  output, after what the group callback prints: one that ends with the path it was given
  (\<^verbatim>\<open>.\<close> when none is given), and the fixed notice that validation is coming soon.
  The exit status is 0. The run has no other effect, and no handler is called.
\<close>

theorem validate_stub:
  "main h env ''validate'' [Pos path] =
     (snd (cli env \<lparr>obj = Some []\<rparr>) @
      [Echo Stdout (magnifier @ '' Validating module at: '' @ path),
       Echo Stdout (warning_sign @ ''  Validation feature coming soon...'')],
      Raises (SystemExit 0)) \<and>
   main h env ''validate'' [] =
     (snd (cli env \<lparr>obj = Some []\<rparr>) @
      [Echo Stdout (magnifier @ '' Validating module at: '' @ ''.''),
       Echo Stdout (warning_sign @ ''  Validation feature coming soon...'')],
      Raises (SystemExit 0)) \<and>
   exit_status (snd (main h env ''validate'' [Pos path])) = Some 0 \<and>
   exit_status (snd (main h env ''validate'' [])) = Some 0"
proof -
  have r: "resolve_command ''validate'' = Some Validate"
    by (simp add: resolve_command_def commands_def)
  have 1: "command_main h Validate c [Pos path] = (fst (validate (Str path)), Inr Returns)" for c
    by (simp add: command_main_def parse_defs param_defs validate_def)
  have 2: "command_main h Validate c [] = (fst (validate (Str ''.'')), Inr Returns)" for c
    by (simp add: command_main_def parse_defs param_defs validate_def)
  show ?thesis
    by (simp add: main_resolved[OF r] 1 2 standalone_def main_except_def validate_def)
qed

theorem validate_stub_witness:
  "main \<lparr>create_module = (\<lambda>c a1 a2 a3 a4 a5 a6. ([''mkdir''], Returns)),
        delete_module = (\<lambda>c a1 a2 a3. ([''rmdir''], Returns))\<rparr>
      [''GITHUB_TOKEN'' \<mapsto> ''ghp_1''] ''validate'' [Pos ''./my-module''] =
     ([Echo Stdout (magnifier @ '' Validating module at: ./my-module''),
       Echo Stdout (warning_sign @ ''  Validation feature coming soon...'')],
      Raises (SystemExit 0))"
  using validate_stub [of "\<lparr>create_module = (\<lambda>c a1 a2 a3 a4 a5 a6. ([''mkdir''], Returns)),
        delete_module = (\<lambda>c a1 a2 a3. ([''rmdir''], Returns))\<rparr>"
      "[''GITHUB_TOKEN'' \<mapsto> ''ghp_1'']" "''./my-module''"]
  by (simp add: snd_cli)

text \<open>
  C7. Whatever the environment, \<^verbatim>\<open>version\<close> prints the line
  \<^verbatim>\<open>info_tech_cli version 0.1.0\<close> on standard output, followed by the name of the
  product and the author, after what the group callback prints, and the exit status is 0.
\<close>

theorem version_output:
  "main h env ''version'' [] =
     (snd (cli env \<lparr>obj = Some []\<rparr>) @
      [Echo Stdout ''info_tech_cli version 0.1.0'',
       Echo Stdout ''InfoTech.io Educational Platform CLI'',
       Echo Stdout ''Author: A1eksMa <a1ex_ma@mail.ru>''],
      Raises (SystemExit 0)) \<and>
   Echo Stdout ''info_tech_cli version 0.1.0'' \<in> set (fst (main h env ''version'' [])) \<and>
   exit_status (snd (main h env ''version'' [])) = Some 0"
proof -
  have r: "resolve_command ''version'' = Some Version"
    by (simp add: resolve_command_def commands_def)
  have "command_main h Version c [] = (fst version, Inr Returns)" for c
    by (simp add: command_main_def parse_defs param_defs version_def)
  then show ?thesis
    by (simp add: main_resolved[OF r] standalone_def main_except_def version_def)
qed

theorem version_output_witness:
  "main \<lparr>create_module = (\<lambda>c a1 a2 a3 a4 a5 a6. ([''mkdir''], Returns)),
        delete_module = (\<lambda>c a1 a2 a3. ([''rmdir''], Returns))\<rparr>
      Map.empty ''version'' [] =
     (warning @
      [Echo Stdout ''info_tech_cli version 0.1.0'',
       Echo Stdout ''InfoTech.io Educational Platform CLI'',
       Echo Stdout ''Author: A1eksMa <a1ex_ma@mail.ru>''],
      Raises (SystemExit 0)) \<and>
   main \<lparr>create_module = (\<lambda>c a1 a2 a3 a4 a5 a6. ([''mkdir''], Returns)),
        delete_module = (\<lambda>c a1 a2 a3. ([''rmdir''], Returns))\<rparr>
      [''GITHUB_TOKEN'' \<mapsto> ''ghp_1''] ''version'' [] =
     ([Echo Stdout ''info_tech_cli version 0.1.0'',
       Echo Stdout ''InfoTech.io Educational Platform CLI'',
       Echo Stdout ''Author: A1eksMa <a1ex_ma@mail.ru>''],
      Raises (SystemExit 0))"
  using version_output [of "\<lparr>create_module = (\<lambda>c a1 a2 a3 a4 a5 a6. ([''mkdir''], Returns)),
        delete_module = (\<lambda>c a1 a2 a3. ([''rmdir''], Returns))\<rparr>" Map.empty]
    version_output [of "\<lparr>create_module = (\<lambda>c a1 a2 a3 a4 a5 a6. ([''mkdir''], Returns)),
        delete_module = (\<lambda>c a1 a2 a3. ([''rmdir''], Returns))\<rparr>" "[''GITHUB_TOKEN'' \<mapsto> ''ghp_1'']"]
  by (simp add: snd_cli)

section \<open>The context object\<close>

text \<open>
  C8. Every call of a handler receives a context whose object exists: whatever object
  the group is called with, even none, \<^verbatim>\<open>ensure_object\<close> has run before the
  sub-command; and in a run of \<^verbatim>\<open>main\<close>, which passes \<^verbatim>\<open>obj={}\<close>, the object is
  the empty dictionary.
\<close>

theorem context_object_exists:
  "list_all (\<lambda>c. obj c \<noteq> None) (call_contexts (fst (cli_call h env ob name ts))) \<and>
   list_all (\<lambda>c. obj c = Some []) (call_contexts (fst (main h env name ts)))"
proof -
  have cm: "list_all (\<lambda>c'. c' = c) (call_contexts (fst (command_main h cmd c ts)))" for cmd c
    by (cases cmd)
      (auto simp: command_main_def create_def delete_def validate_def version_def split_def
        Let_def call_contexts_effects split: parse_result.splits)
  have g: "list_all (\<lambda>c'. c' = make_context (ensure_object c))
             (call_contexts (fst (group_invoke h env c name ts)))" for c
  proof (cases "resolve_command name")
    case None
    then show ?thesis by (simp add: group_invoke_def)
  next
    case (Some cmd)
    then show ?thesis
      by (simp add: group_invoke_resolved call_contexts_append call_contexts_cli cm)
  qed
  have "list_all (\<lambda>c. obj c \<noteq> None) (call_contexts (fst (cli_call h env ob name ts)))"
    using g[of "\<lparr>obj = ob\<rparr>"]
    by (auto simp: cli_call_def call_contexts_standalone list_all_iff make_context_def
        ensure_object_def split: option.splits)
  moreover have "list_all (\<lambda>c. obj c = Some []) (call_contexts (fst (main h env name ts)))"
    using g[of "\<lparr>obj = Some []\<rparr>"]
    by (auto simp: main_def cli_call_def call_contexts_standalone call_contexts_main_except
        list_all_iff make_context_def ensure_object_def)
  ultimately show ?thesis by simp
qed

theorem context_object_exists_witness:
  "call_contexts (fst (cli_call \<lparr>create_module = (\<lambda>c a1 a2 a3 a4 a5 a6. ([''mkdir''], Returns)),
        delete_module = (\<lambda>c a1 a2 a3. ([''rmdir''], Returns))\<rparr>
      Map.empty None ''delete'' [Pos ''old-module''])) = [\<lparr>obj = Some []\<rparr>] \<and>
   list_all (\<lambda>c. obj c \<noteq> None) (call_contexts (fst (cli_call \<lparr>create_module = (\<lambda>c a1 a2 a3 a4 a5 a6. ([''mkdir''], Returns)),
        delete_module = (\<lambda>c a1 a2 a3. ([''rmdir''], Returns))\<rparr>
      Map.empty None ''delete'' [Pos ''old-module''])))"
proof -
  let ?h = "\<lparr>create_module = (\<lambda>c a1 a2 a3 a4 a5 a6. ([''mkdir''], Returns)),
        delete_module = (\<lambda>c a1 a2 a3. ([''rmdir''], Returns))\<rparr>"
  have "call_contexts (fst (cli_call ?h Map.empty None ''delete'' [Pos ''old-module''])) =
      [\<lparr>obj = Some []\<rparr>]"
    by (simp add: run_defs parse_defs param_defs warning_def)
  with context_object_exists [of ?h Map.empty None "''delete''" "[Pos ''old-module'']"]
  show ?thesis by simp
qed

end
